theory Spec2Isabelle
  imports Complex_Main
begin

section \<open>The ECOS solver interface of CVXPY\<close>

text \<open>
  A shallow embedding of \<^verbatim>\<open>cvxpy/solver_interface/conic_solvers/ecos_conif.py\<close>: the class
  \<^verbatim>\<open>ECOS\<close> with its table \<^verbatim>\<open>STATUS_MAP\<close> and its methods \<^verbatim>\<open>get_problem_data\<close>,
  \<^verbatim>\<open>solve\<close> and \<^verbatim>\<open>format_results\<close>. Python exceptions are values of the type \<open>exn\<close>,
  and a computation that may raise returns \<open>exn + 'a\<close>, with \<open>Inl\<close> for the exception.
\<close>

subsection \<open>Exceptions\<close>

text \<open>
  The key a \<^verbatim>\<open>KeyError\<close> carries: an integer, a string literal of the source, or the value
  of a constant of \<^verbatim>\<open>cvxpy.settings\<close>, named by the constant (\<^verbatim>\<open>s.OFFSET\<close> is
  \<open>KConst ''OFFSET''\<close>).
\<close>

datatype pykey = KInt int | KStr string | KConst string

text \<open>
  The first five constructors are the built-in exceptions the interpreter raises in this
  file. The last four are the error names of the specification; no line of the source
  defines or raises them.
\<close>

datatype exn =
    KeyError pykey
  | NameError string
  | TypeError string
  | ImportError string
  | AttributeError string
  | UnknownExitCode
  | UnsupportedConstraint
  | InvalidProblemShape
  | SolverInvocationFailure

definition bind_exn :: "exn + 'a \<Rightarrow> ('a \<Rightarrow> exn + 'b) \<Rightarrow> exn + 'b" where
  "bind_exn m f = (case m of Inl e \<Rightarrow> Inl e | Inr a \<Rightarrow> f a)"

text \<open>
  The subscript \<^verbatim>\<open>d[k]\<close> of a dictionary: the entry under the key, or \<^verbatim>\<open>KeyError(k)\<close>
  when the dictionary has none.
\<close>

definition getitem :: "pykey \<Rightarrow> 'a option \<Rightarrow> exn + 'a" where
  "getitem k entry = (case entry of None \<Rightarrow> Inl (KeyError k) | Some v \<Rightarrow> Inr v)"

subsection \<open>Constants of \<^verbatim>\<open>cvxpy.settings\<close>\<close>

text \<open>
  Modelled from the spec: the module \<^verbatim>\<open>cvxpy.settings\<close> (imported as \<^verbatim>\<open>s\<close>) is not
  part of the source. The specification gives the status values as a closed enumeration of
  seven distinct members, and the subset "solution present" as
  \<open>{OPTIMAL, OPTIMAL_INACCURATE}\<close>.
\<close>

datatype status =
    OPTIMAL
  | INFEASIBLE
  | UNBOUNDED
  | OPTIMAL_INACCURATE
  | INFEASIBLE_INACCURATE
  | UNBOUNDED_INACCURATE
  | SOLVER_ERROR

definition SOLUTION_PRESENT :: "status list" where
  "SOLUTION_PRESENT = [OPTIMAL, OPTIMAL_INACCURATE]"

subsection \<open>Dictionaries\<close>

text \<open>
  Each dictionary of the source is a record with one optional entry for every key the
  source reads or writes: \<open>None\<close> is a missing key, which the subscript turns into a
  \<^verbatim>\<open>KeyError\<close>. The type \<open>'n\<close> stands for the numbers of the solver (Python floats), with
  \<open>+\<close> their addition; \<open>'a\<close> stands for vectors and matrices, which this file only passes
  on.

  The output of \<^verbatim>\<open>ecos.solve\<close>: \<^verbatim>\<open>results_dict\<close>, its entry \<^verbatim>\<open>'info'\<close> and the entry
  \<^verbatim>\<open>'timing'\<close> of that. The keys \<^verbatim>\<open>'x'\<close>, \<^verbatim>\<open>'y'\<close> and \<^verbatim>\<open>'z'\<close> are the fields
  \<open>x_vec\<close>, \<open>y_vec\<close> and \<open>z_vec\<close>.
\<close>

record 'n timing_dict =
  tsolve :: "'n option"
  tsetup :: "'n option"

record 'n info_dict =
  exitFlag :: "int option"
  pcost :: "'n option"
  iter :: "int option"
  timing :: "'n timing_dict option"

record ('a, 'n) results_dict =
  info :: "'n info_dict option"
  x_vec :: "'a option"
  y_vec :: "'a option"
  z_vec :: "'a option"

text \<open>
  The argument dictionary \<^verbatim>\<open>data\<close> that \<^verbatim>\<open>get_problem_data\<close> builds. Its keys are
  constants of \<^verbatim>\<open>cvxpy.settings\<close>; the field \<open>s_C\<close> is the entry \<^verbatim>\<open>data[s.C]\<close>.
  Modelled from the spec: the keys are distinct names (the argument bundle lists them as
  separate components). The entry \<^verbatim>\<open>data[s.DIMS]\<close> is a reference to a dictionary in the
  heap.
\<close>

type_synonym addr = nat

record ('a, 'n) data_dict =
  s_C :: "'a option"
  s_OFFSET :: "'n option"
  s_A :: "'a option"
  s_B :: "'a option"
  s_G :: "'a option"
  s_H :: "'a option"
  s_F :: "'a option"
  s_DIMS :: "addr option"
  s_BOOL_IDX :: "int list option"
  s_INT_IDX :: "int list option"

text \<open>
  The dictionary \<^verbatim>\<open>new_results\<close> that \<^verbatim>\<open>format_results\<close> returns. Modelled from the
  spec: its eight keys are distinct names (the normalized result lists them as separate
  fields).
\<close>

record ('a, 'n) new_results_dict =
  s_STATUS :: "status option"
  s_SOLVE_TIME :: "'n option"
  s_SETUP_TIME :: "'n option"
  s_NUM_ITERS :: "int option"
  s_VALUE :: "'n option"
  s_PRIMAL :: "'a option"
  s_EQ_DUAL :: "'a option"
  s_INEQ_DUAL :: "'a option"

definition empty_results :: "('a, 'n) new_results_dict" where
  "empty_results =
     \<lparr>s_STATUS = None, s_SOLVE_TIME = None, s_SETUP_TIME = None, s_NUM_ITERS = None,
      s_VALUE = None, s_PRIMAL = None, s_EQ_DUAL = None, s_INEQ_DUAL = None\<rparr>"

subsection \<open>\<^verbatim>\<open>STATUS_MAP\<close> and \<^verbatim>\<open>format_results\<close>\<close>

definition STATUS_MAP :: "(int \<times> status) list" where
  "STATUS_MAP =
     [(0, OPTIMAL),
      (1, INFEASIBLE),
      (2, UNBOUNDED),
      (10, OPTIMAL_INACCURATE),
      (11, INFEASIBLE_INACCURATE),
      (12, UNBOUNDED_INACCURATE),
      (-1, SOLVER_ERROR),
      (-2, SOLVER_ERROR),
      (-3, SOLVER_ERROR),
      (-4, SOLVER_ERROR),
      (-7, SOLVER_ERROR)]"

text \<open>
  \<^verbatim>\<open>results_dict['info']['timing'][k]\<close> and \<^verbatim>\<open>results_dict['info'][k]\<close>, each subscript in
  the order the interpreter evaluates it.
\<close>

definition info_of :: "('a, 'n) results_dict \<Rightarrow> exn + 'n info_dict" where
  "info_of results_dict = getitem (KStr ''info'') (info results_dict)"

definition timing_of :: "('a, 'n) results_dict \<Rightarrow> exn + 'n timing_dict" where
  "timing_of results_dict =
     bind_exn (info_of results_dict) (\<lambda>i. getitem (KStr ''timing'') (timing i))"

text \<open>
  The parameter \<^verbatim>\<open>cached_data\<close> is not read by the body. The statements follow the source
  line by line: the status lookup, the three diagnostics, then the branch on
  \<^verbatim>\<open>new_results[s.STATUS] in s.SOLUTION_PRESENT\<close>.
\<close>

definition format_results ::
  "('a, 'n::plus) results_dict \<Rightarrow> ('a, 'n) data_dict \<Rightarrow> 'c \<Rightarrow> exn + ('a, 'n) new_results_dict"
where
  "format_results results_dict data cached_data =
     bind_exn (info_of results_dict) (\<lambda>i.
     bind_exn (getitem (KStr ''exitFlag'') (exitFlag i)) (\<lambda>flag.
     bind_exn (getitem (KInt flag) (map_of STATUS_MAP flag)) (\<lambda>status.
     let new_results = empty_results\<lparr>s_STATUS := Some status\<rparr> in
     bind_exn (timing_of results_dict) (\<lambda>t.
     bind_exn (getitem (KStr ''tsolve'') (tsolve t)) (\<lambda>v.
     let new_results = new_results\<lparr>s_SOLVE_TIME := Some v\<rparr> in
     bind_exn (timing_of results_dict) (\<lambda>t.
     bind_exn (getitem (KStr ''tsetup'') (tsetup t)) (\<lambda>v.
     let new_results = new_results\<lparr>s_SETUP_TIME := Some v\<rparr> in
     bind_exn (info_of results_dict) (\<lambda>i.
     bind_exn (getitem (KStr ''iter'') (iter i)) (\<lambda>v.
     let new_results = new_results\<lparr>s_NUM_ITERS := Some v\<rparr> in
     bind_exn (getitem (KConst ''STATUS'') (s_STATUS new_results)) (\<lambda>st.
     if st \<in> set SOLUTION_PRESENT then
       bind_exn (info_of results_dict) (\<lambda>i.
       bind_exn (getitem (KStr ''pcost'') (pcost i)) (\<lambda>primal_val.
       bind_exn (getitem (KConst ''OFFSET'') (s_OFFSET data)) (\<lambda>offset.
       let new_results = new_results\<lparr>s_VALUE := Some (primal_val + offset)\<rparr> in
       bind_exn (getitem (KStr ''x'') (x_vec results_dict)) (\<lambda>v.
       let new_results = new_results\<lparr>s_PRIMAL := Some v\<rparr> in
       bind_exn (getitem (KStr ''y'') (y_vec results_dict)) (\<lambda>v.
       let new_results = new_results\<lparr>s_EQ_DUAL := Some v\<rparr> in
       bind_exn (getitem (KStr ''z'') (z_vec results_dict)) (\<lambda>v.
       let new_results = new_results\<lparr>s_INEQ_DUAL := Some v\<rparr> in
       Inr new_results))))))
     else Inr new_results))))))))))"

subsection \<open>Capability flags\<close>

definition LP_CAPABLE :: bool where "LP_CAPABLE = True"
definition SOCP_CAPABLE :: bool where "SOCP_CAPABLE = True"
definition SDP_CAPABLE :: bool where "SDP_CAPABLE = False"
definition EXP_CAPABLE :: bool where "EXP_CAPABLE = True"
definition MIP_CAPABLE :: bool where "MIP_CAPABLE = False"

text \<open>
  The method \<^verbatim>\<open>accepts\<close> is commented out in the source, so the class has no such method
  and nothing calls it. The list below is the list of constraint classes its text names;
  a constraint is given by the name of its class.
\<close>

definition accepted_constr_types :: "string list" where
  "accepted_constr_types = [''Eq'', ''Ineq'', ''SOC'', ''Exp'']"

subsection \<open>Objects, names and calls\<close>

text \<open>
  The objects the methods receive and the module binds: modules and classes by name, an
  instance of a class (\<^verbatim>\<open>self\<close>), the canonical objective, the list of canonical
  constraints (each the name of its class and its content), a dictionary (the cached data,
  the solver options) and a boolean. The type \<open>'a\<close> is the content this file does not
  look into.
\<close>

datatype 'a pyobj =
    PyModule string
  | PyClass string
  | PyInstance string
  | LinOp 'a
  | ConstrList "(string \<times> 'a) list"
  | PyDict 'a
  | PyBool bool

type_synonym 'a env = "string \<rightharpoonup> 'a pyobj"

text \<open>
  The names the source binds at the top level of the module: the two imported modules,
  the imported class and the class the file defines. No builtin is called
  \<^verbatim>\<open>cached_data\<close>. The methods take the global names as a parameter \<open>globals\<close>, and
  \<open>module_globals\<close> is its value as the source defines the module.
\<close>

definition module_globals :: "'a env" where
  "module_globals =
     map_of [(''intf'', PyModule ''cvxpy.interface''),
             (''s'', PyModule ''cvxpy.settings''),
             (''Solver'', PyClass ''Solver''),
             (''ECOS'', PyClass ''ECOS'')]"

text \<open>
  A call with positional arguments binds them to the parameters of the \<^verbatim>\<open>def\<close>, and is
  a \<^verbatim>\<open>TypeError\<close> when their number differs. Reading a name looks in the local names,
  then in the global names of the function, which are the names of its module when the
  function runs, and is a \<^verbatim>\<open>NameError\<close> when neither has it.
\<close>

definition bind_args :: "string \<Rightarrow> string list \<Rightarrow> 'a pyobj list \<Rightarrow> exn + 'a env" where
  "bind_args f params args =
     (if length args = length params then Inr (map_of (zip params args))
      else Inl (TypeError f))"

definition load_name :: "'a env \<Rightarrow> 'a env \<Rightarrow> string \<Rightarrow> exn + 'a pyobj" where
  "load_name globals locals name =
     (case locals name of
        Some v \<Rightarrow> Inr v
      | None \<Rightarrow> (case globals name of Some v \<Rightarrow> Inr v | None \<Rightarrow> Inl (NameError name)))"

subsection \<open>The heap of cone-dimension dictionaries\<close>

text \<open>
  The cone-dimension dictionary \<^verbatim>\<open>dims\<close> is shared by reference and updated in place, so
  it lives in a heap: an address holds a dictionary from string keys to values.
  \<^verbatim>\<open>d.copy()\<close> allocates a new dictionary with the same entries, \<^verbatim>\<open>d[k]\<close> reads an
  entry and \<^verbatim>\<open>d[k] = v\<close> writes one. An address that holds no dictionary stands for an
  object that is not a dictionary.
\<close>

record 'a state =
  heap :: "addr \<rightharpoonup> (string \<rightharpoonup> 'a)"
  next_addr :: addr

type_synonym ('a, 'r) prog = "'a state \<Rightarrow> (exn + 'r) \<times> 'a state"

definition bind_st :: "('a, 'r) prog \<Rightarrow> ('r \<Rightarrow> ('a, 'q) prog) \<Rightarrow> ('a, 'q) prog" where
  "bind_st m f st = (case m st of (Inl e, st') \<Rightarrow> (Inl e, st') | (Inr r, st') \<Rightarrow> f r st')"

definition lift :: "exn + 'r \<Rightarrow> ('a, 'r) prog" where
  "lift m st = (m, st)"

definition dict_copy :: "addr \<Rightarrow> ('a, addr) prog" where
  "dict_copy a st =
     (case heap st a of
        None \<Rightarrow> (Inl (AttributeError ''copy''), st)
      | Some d \<Rightarrow>
          (Inr (next_addr st),
           st\<lparr>heap := (heap st)(next_addr st \<mapsto> d), next_addr := Suc (next_addr st)\<rparr>))"

definition dict_getitem :: "addr \<Rightarrow> string \<Rightarrow> ('a, 'a) prog" where
  "dict_getitem a k st =
     (case heap st a of
        None \<Rightarrow> (Inl (TypeError ''__getitem__''), st)
      | Some d \<Rightarrow> (getitem (KStr k) (d k), st))"

definition dict_setitem :: "addr \<Rightarrow> string \<Rightarrow> 'a \<Rightarrow> ('a, unit) prog" where
  "dict_setitem a k v st =
     (case heap st a of
        None \<Rightarrow> (Inl (TypeError ''__setitem__''), st)
      | Some d \<Rightarrow> (Inr (), st\<lparr>heap := (heap st)(a \<mapsto> d(k \<mapsto> v))\<rparr>))"

subsection \<open>The base class \<^verbatim>\<open>Solver\<close> and the solver \<^verbatim>\<open>ecos\<close>\<close>

text \<open>
  The class \<^verbatim>\<open>Solver\<close> of \<^verbatim>\<open>cvxpy.problems.solvers.solver\<close> is not part of the source, so
  the three methods \<^verbatim>\<open>ECOS\<close> inherits from it are parameters: \<^verbatim>\<open>get_sym_data\<close>,
  \<^verbatim>\<open>get_matrix_data\<close> and \<^verbatim>\<open>_noncvx_id_to_idx\<close>, each free to raise and to change the
  heap. So are the objects the first two return: the symbolic data with its attributes
  \<^verbatim>\<open>dims\<close> (a reference), \<^verbatim>\<open>var_offsets\<close> and \<^verbatim>\<open>var_sizes\<close>, and the matrix data with
  its four methods.
\<close>

record 'a sym_data =
  dims :: addr
  var_offsets :: 'a
  var_sizes :: 'a

record ('a, 'n) matrix_data =
  get_objective :: "('a, 'a \<times> 'n) prog"
  get_eq_constr :: "('a, 'a \<times> 'a) prog"
  get_ineq_constr :: "('a, 'a \<times> 'a) prog"
  get_nonlin_constr :: "('a, 'a) prog"

record ('a, 'n) solver_base =
  get_sym_data :: "'a pyobj \<Rightarrow> 'a pyobj \<Rightarrow> 'a pyobj \<Rightarrow> ('a, 'a sym_data) prog"
  get_matrix_data :: "'a pyobj \<Rightarrow> 'a pyobj \<Rightarrow> 'a pyobj \<Rightarrow> ('a, ('a, 'n) matrix_data) prog"
  noncvx_id_to_idx :: "addr \<Rightarrow> 'a \<Rightarrow> 'a \<Rightarrow> ('a, int list \<times> int list) prog"

text \<open>
  The arguments of \<^verbatim>\<open>ecos.solve\<close> in the order of the call, and the module \<^verbatim>\<open>ecos\<close>:
  \<open>None\<close> when it cannot be imported, otherwise its function \<^verbatim>\<open>solve\<close>, a parameter
  as well.
\<close>

record 'a ecos_args =
  arg_c :: 'a
  arg_G :: 'a
  arg_h :: 'a
  arg_dims :: addr
  arg_A :: 'a
  arg_b :: 'a
  arg_verbose :: bool
  arg_solver_opts :: "'a pyobj"

type_synonym ('a, 'n) ecos_module = "('a ecos_args \<Rightarrow> ('a, ('a, 'n) results_dict) prog) option"

definition import_module :: "string \<Rightarrow> 'm option \<Rightarrow> exn + 'm" where
  "import_module name m = (case m of None \<Rightarrow> Inl (ImportError name) | Some f \<Rightarrow> Inr f)"

subsection \<open>\<^verbatim>\<open>get_problem_data\<close>\<close>

definition empty_data :: "('a, 'n) data_dict" where
  "empty_data =
     \<lparr>s_C = None, s_OFFSET = None, s_A = None, s_B = None, s_G = None, s_H = None,
      s_F = None, s_DIMS = None, s_BOOL_IDX = None, s_INT_IDX = None\<rparr>"

text \<open>
  The method is declared with the parameters \<^verbatim>\<open>self\<close>, \<^verbatim>\<open>objective\<close> and
  \<^verbatim>\<open>constraints\<close>; \<open>args\<close> is the list of the objects it is called with, \<^verbatim>\<open>self\<close>
  first. Its two first statements read the names \<^verbatim>\<open>objective\<close>, \<^verbatim>\<open>constraints\<close> and
  \<^verbatim>\<open>cached_data\<close>, in this order, after the method of \<^verbatim>\<open>self\<close> they pass them to.
\<close>

definition get_problem_data ::
  "('a, 'n) solver_base \<Rightarrow> 'a env \<Rightarrow> 'a pyobj list \<Rightarrow> ('a, ('a, 'n) data_dict) prog"
where
  "get_problem_data base globals args =
     bind_st (lift (bind_args ''get_problem_data'' [''self'', ''objective'', ''constraints''] args))
       (\<lambda>locals.
     bind_st (lift (load_name globals locals ''self'')) (\<lambda>self.
     bind_st (lift (load_name globals locals ''objective'')) (\<lambda>objective.
     bind_st (lift (load_name globals locals ''constraints'')) (\<lambda>constraints.
     bind_st (lift (load_name globals locals ''cached_data'')) (\<lambda>cached_data.
     bind_st (get_sym_data base objective constraints cached_data) (\<lambda>sym_data.
     bind_st (lift (load_name globals locals ''self'')) (\<lambda>self.
     bind_st (lift (load_name globals locals ''objective'')) (\<lambda>objective.
     bind_st (lift (load_name globals locals ''constraints'')) (\<lambda>constraints.
     bind_st (lift (load_name globals locals ''cached_data'')) (\<lambda>cached_data.
     bind_st (get_matrix_data base objective constraints cached_data) (\<lambda>matrix_data.
     let data = empty_data in
     bind_st (get_objective matrix_data) (\<lambda>(c, offset).
     let data = data\<lparr>s_C := Some c, s_OFFSET := Some offset\<rparr> in
     bind_st (get_eq_constr matrix_data) (\<lambda>(A, b).
     let data = data\<lparr>s_A := Some A, s_B := Some b\<rparr> in
     bind_st (get_ineq_constr matrix_data) (\<lambda>(G, h).
     let data = data\<lparr>s_G := Some G, s_H := Some h\<rparr> in
     bind_st (get_nonlin_constr matrix_data) (\<lambda>F.
     let data = data\<lparr>s_F := Some F\<rparr> in
     bind_st (dict_copy (dims sym_data)) (\<lambda>d.
     let data = data\<lparr>s_DIMS := Some d\<rparr> in
     bind_st (lift (getitem (KConst ''DIMS'') (s_DIMS data))) (\<lambda>d.
     bind_st (noncvx_id_to_idx base d (var_offsets sym_data) (var_sizes sym_data))
       (\<lambda>(bool_idx, int_idx).
     let data = data\<lparr>s_BOOL_IDX := Some bool_idx\<rparr> in
     let data = data\<lparr>s_INT_IDX := Some int_idx\<rparr> in
     lift (Inr data)))))))))))))))))))"

subsection \<open>\<^verbatim>\<open>solve\<close>\<close>

text \<open>
  \<^verbatim>\<open>solve\<close> imports \<^verbatim>\<open>ecos\<close>, calls \<^verbatim>\<open>self.get_problem_data\<close> with \<^verbatim>\<open>objective\<close>,
  \<^verbatim>\<open>constraints\<close> and \<^verbatim>\<open>cached_data\<close>, stores \<^verbatim>\<open>data[s.DIMS][s.EXP_DIM]\<close> under the key
  \<^verbatim>\<open>'e'\<close> of \<^verbatim>\<open>data[s.DIMS]\<close>, calls \<^verbatim>\<open>ecos.solve\<close> and formats what it returns. The
  value of the constant \<^verbatim>\<open>s.EXP_DIM\<close> of \<^verbatim>\<open>cvxpy.settings\<close>, a key of the cone-dimension
  dictionary, is the parameter \<open>EXP_DIM\<close>. The parameter \<^verbatim>\<open>warm_start\<close> is not read by
  the body.
\<close>

definition solve ::
  "('a, 'n::plus) solver_base \<Rightarrow> 'a env \<Rightarrow> ('a, 'n) ecos_module \<Rightarrow> string \<Rightarrow>
   'a pyobj \<Rightarrow> 'a pyobj \<Rightarrow> 'a pyobj \<Rightarrow> 'a pyobj \<Rightarrow> bool \<Rightarrow> bool \<Rightarrow> 'a pyobj \<Rightarrow>
   ('a, ('a, 'n) new_results_dict) prog"
where
  "solve base globals ecos EXP_DIM self objective constraints cached_data warm_start verbose
       solver_opts =
     bind_st (lift (import_module ''ecos'' ecos)) (\<lambda>ecos_solve.
     bind_st (get_problem_data base globals [self, objective, constraints, cached_data]) (\<lambda>data.
     bind_st (lift (getitem (KConst ''DIMS'') (s_DIMS data))) (\<lambda>d.
     bind_st (dict_getitem d EXP_DIM) (\<lambda>v.
     bind_st (lift (getitem (KConst ''DIMS'') (s_DIMS data))) (\<lambda>d.
     bind_st (dict_setitem d ''e'' v) (\<lambda>_.
     bind_st (lift (getitem (KConst ''C'') (s_C data))) (\<lambda>c.
     bind_st (lift (getitem (KConst ''G'') (s_G data))) (\<lambda>G.
     bind_st (lift (getitem (KConst ''H'') (s_H data))) (\<lambda>h.
     bind_st (lift (getitem (KConst ''DIMS'') (s_DIMS data))) (\<lambda>d.
     bind_st (lift (getitem (KConst ''A'') (s_A data))) (\<lambda>A.
     bind_st (lift (getitem (KConst ''B'') (s_B data))) (\<lambda>b.
     bind_st (ecos_solve \<lparr>arg_c = c, arg_G = G, arg_h = h, arg_dims = d, arg_A = A,
                          arg_b = b, arg_verbose = verbose, arg_solver_opts = solver_opts\<rparr>)
       (\<lambda>results_dict.
     lift (format_results results_dict data cached_data))))))))))))))"

subsection \<open>Exceptions a computation does not raise\<close>

text \<open>
  \<open>never_raises e p\<close>: the computation \<open>p\<close> raises \<open>e\<close> from no state. For the base
  class, \<open>base_never_raises e base\<close>: none of the three inherited methods raises \<open>e\<close>,
  nor does a method of a matrix data object that \<^verbatim>\<open>get_matrix_data\<close> returns.
\<close>

definition never_raises :: "exn \<Rightarrow> ('a, 'r) prog \<Rightarrow> bool" where
  "never_raises e p = (\<forall>st. fst (p st) \<noteq> Inl e)"

definition base_never_raises :: "exn \<Rightarrow> ('a, 'n) solver_base \<Rightarrow> bool" where
  "base_never_raises e base =
     ((\<forall>objective constraints cached_data.
         never_raises e (get_sym_data base objective constraints cached_data)) \<and>
      (\<forall>objective constraints cached_data.
         never_raises e (get_matrix_data base objective constraints cached_data)) \<and>
      (\<forall>objective constraints cached_data st matrix_data st'.
         get_matrix_data base objective constraints cached_data st = (Inr matrix_data, st') \<longrightarrow>
         never_raises e (get_objective matrix_data) \<and>
         never_raises e (get_eq_constr matrix_data) \<and>
         never_raises e (get_ineq_constr matrix_data) \<and>
         never_raises e (get_nonlin_constr matrix_data)) \<and>
      (\<forall>d offsets sizes. never_raises e (noncvx_id_to_idx base d offsets sizes)))"

subsection \<open>What the specification requires of a raw solver result\<close>

text \<open>
  The solver contract of the specification: the raw result carries an \<^verbatim>\<open>info\<close> block
  with the iteration count and the two timings (\<open>diagnostics_present\<close>), and, for a
  solution, the primal cost, the vectors \<^verbatim>\<open>x\<close>, \<^verbatim>\<open>y\<close>, \<^verbatim>\<open>z\<close> and the offset of the
  argument bundle (\<open>solution_data_present\<close>). \<open>exit_code\<close> is
  \<^verbatim>\<open>results_dict['info']['exitFlag']\<close> where it exists.
\<close>

definition exit_code :: "('a, 'n) results_dict \<Rightarrow> int option" where
  "exit_code results_dict = (case info results_dict of None \<Rightarrow> None | Some i \<Rightarrow> exitFlag i)"

definition diagnostics_present :: "('a, 'n) results_dict \<Rightarrow> bool" where
  "diagnostics_present results_dict =
     (case info results_dict of
        None \<Rightarrow> False
      | Some i \<Rightarrow>
          iter i \<noteq> None \<and>
          (case timing i of None \<Rightarrow> False | Some t \<Rightarrow> tsolve t \<noteq> None \<and> tsetup t \<noteq> None))"

definition solution_data_present :: "('a, 'n) results_dict \<Rightarrow> ('a, 'n) data_dict \<Rightarrow> bool" where
  "solution_data_present results_dict data =
     ((case info results_dict of None \<Rightarrow> False | Some i \<Rightarrow> pcost i \<noteq> None) \<and>
      s_OFFSET data \<noteq> None \<and>
      x_vec results_dict \<noteq> None \<and> y_vec results_dict \<noteq> None \<and> z_vec results_dict \<noteq> None)"

subsection \<open>Example inputs\<close>

text \<open>
  A raw result with every entry, for a given exit code; the same without the vectors
  \<^verbatim>\<open>x\<close>, \<^verbatim>\<open>y\<close>, \<^verbatim>\<open>z\<close> and the primal cost; and an argument bundle with offset \<open>2.5\<close>.
\<close>

definition example_results :: "int \<Rightarrow> (int list, real) results_dict" where
  "example_results flag =
     \<lparr>info = Some \<lparr>exitFlag = Some flag, pcost = Some 5, iter = Some 7,
                   timing = Some \<lparr>tsolve = Some (1 / 4), tsetup = Some (1 / 8)\<rparr>\<rparr>,
      x_vec = Some [1, 2], y_vec = Some [3], z_vec = Some [4, 5, 6]\<rparr>"

definition example_results_bare :: "int \<Rightarrow> (int list, real) results_dict" where
  "example_results_bare flag =
     \<lparr>info = Some \<lparr>exitFlag = Some flag, pcost = None, iter = Some 7,
                   timing = Some \<lparr>tsolve = Some (1 / 4), tsetup = Some (1 / 8)\<rparr>\<rparr>,
      x_vec = None, y_vec = None, z_vec = None\<rparr>"

definition example_data :: "(int list, real) data_dict" where
  "example_data =
     \<lparr>s_C = Some [1, 1], s_OFFSET = Some (5 / 2), s_A = Some [], s_B = Some [],
      s_G = Some [], s_H = Some [], s_F = None, s_DIMS = Some 1,
      s_BOOL_IDX = Some [], s_INT_IDX = Some []\<rparr>"

text \<open>
  A base class whose methods succeed and leave the heap alone, a solver that returns the
  example result with exit code \<open>0\<close>, a heap with the upstream cone-dimension dictionary
  at address \<open>0\<close>, and the objects of a call. The second list of constraints holds a
  semidefinite constraint, a class outside \<open>accepted_constr_types\<close>.
\<close>

definition example_matrix_data :: "(int list, real) matrix_data" where
  "example_matrix_data =
     \<lparr>get_objective = lift (Inr ([1, 1], 5 / 2)),
      get_eq_constr = lift (Inr ([], [])),
      get_ineq_constr = lift (Inr ([1, 0, 0, 1], [1, 1])),
      get_nonlin_constr = lift (Inr [])\<rparr>"

definition example_base :: "(int list, real) solver_base" where
  "example_base =
     \<lparr>get_sym_data =
        (\<lambda>objective constraints cached_data.
           lift (Inr \<lparr>dims = 0, var_offsets = [0], var_sizes = [2]\<rparr>)),
      get_matrix_data = (\<lambda>objective constraints cached_data. lift (Inr example_matrix_data)),
      noncvx_id_to_idx = (\<lambda>d offsets sizes. lift (Inr ([0], [1])))\<rparr>"

definition example_ecos :: "(int list, real) ecos_module" where
  "example_ecos = Some (\<lambda>args. lift (Inr (example_results 0)))"

definition example_state :: "int list state" where
  "example_state = \<lparr>heap = [0 \<mapsto> [''l'' \<mapsto> [2], ''ep'' \<mapsto> [0]]], next_addr = 1\<rparr>"

definition example_self :: "int list pyobj" where
  "example_self = PyInstance ''ECOS''"

definition example_objective :: "int list pyobj" where
  "example_objective = LinOp [1, 1]"

definition example_constraints :: "int list pyobj" where
  "example_constraints = ConstrList [(''Ineq'', [1, 0, 0, 1])]"

definition example_sdp_constraints :: "int list pyobj" where
  "example_sdp_constraints = ConstrList [(''Ineq'', [1, 0, 0, 1]), (''SDP'', [1, 0, 0, 1])]"

definition example_cached_data :: "int list pyobj" where
  "example_cached_data = PyDict []"

definition example_solver_opts :: "int list pyobj" where
  "example_solver_opts = PyDict []"

section \<open>Properties of \<^verbatim>\<open>format_results\<close>\<close>

lemma bind_exn_simps:
  "bind_exn (Inl e) f = Inl e"
  "bind_exn (Inr a) f = f a"
  by (simp_all add: bind_exn_def)

lemma getitem_simps:
  "getitem k None = Inl (KeyError k)"
  "getitem k (Some v) = Inr v"
  by (simp_all add: getitem_def)

text \<open>The keys of \<^verbatim>\<open>STATUS_MAP\<close>, and the status under each.\<close>

lemma STATUS_MAP_keys: "fst ` set STATUS_MAP = {0, 1, 2, 10, 11, 12, -1, -2, -3, -4, -7}"
  by (simp add: STATUS_MAP_def)

lemma STATUS_MAP_None:
  "flag \<notin> {0, 1, 2, 10, 11, 12, -1, -2, -3, -4, -7} \<Longrightarrow> map_of STATUS_MAP flag = None"
  by (simp add: STATUS_MAP_def)

lemma STATUS_MAP_Some:
  "flag \<in> {0, 1, 2, 10, 11, 12, -1, -2, -3, -4, -7} \<Longrightarrow>
   map_of STATUS_MAP flag =
     Some (if flag = 0 then OPTIMAL else if flag = 1 then INFEASIBLE
           else if flag = 2 then UNBOUNDED else if flag = 10 then OPTIMAL_INACCURATE
           else if flag = 11 then INFEASIBLE_INACCURATE
           else if flag = 12 then UNBOUNDED_INACCURATE else SOLVER_ERROR)"
  by (auto simp add: STATUS_MAP_def)

lemma STATUS_MAP_solution_present:
  "map_of STATUS_MAP flag = Some st \<Longrightarrow> (st \<in> set SOLUTION_PRESENT) = (flag \<in> {0, 10})"
  by (auto simp add: STATUS_MAP_def SOLUTION_PRESENT_def split: if_splits)

text \<open>The three ways \<^verbatim>\<open>format_results\<close> ends once the exit code has been read.\<close>

lemma format_results_unknown:
  assumes "info results_dict = Some i" "exitFlag i = Some flag" "map_of STATUS_MAP flag = None"
  shows "format_results results_dict data cached_data = Inl (KeyError (KInt flag))"
  using assms by (simp add: format_results_def info_of_def bind_exn_simps getitem_simps)

lemma format_results_absent:
  assumes "info results_dict = Some i" "exitFlag i = Some flag"
    "map_of STATUS_MAP flag = Some st" "timing i = Some t" "tsolve t = Some ts"
    "tsetup t = Some tu" "iter i = Some it" "st \<notin> set SOLUTION_PRESENT"
  shows "format_results results_dict data cached_data =
     Inr \<lparr>s_STATUS = Some st, s_SOLVE_TIME = Some ts, s_SETUP_TIME = Some tu,
          s_NUM_ITERS = Some it, s_VALUE = None, s_PRIMAL = None, s_EQ_DUAL = None,
          s_INEQ_DUAL = None\<rparr>"
  using assms
  by (simp add: format_results_def info_of_def timing_of_def empty_results_def
      bind_exn_simps getitem_simps)

lemma format_results_present:
  assumes "info results_dict = Some i" "exitFlag i = Some flag"
    "map_of STATUS_MAP flag = Some st" "timing i = Some t" "tsolve t = Some ts"
    "tsetup t = Some tu" "iter i = Some it" "st \<in> set SOLUTION_PRESENT"
    "pcost i = Some pc" "s_OFFSET data = Some off" "x_vec results_dict = Some xv"
    "y_vec results_dict = Some yv" "z_vec results_dict = Some zv"
  shows "format_results results_dict data cached_data =
     Inr \<lparr>s_STATUS = Some st, s_SOLVE_TIME = Some ts, s_SETUP_TIME = Some tu,
          s_NUM_ITERS = Some it, s_VALUE = Some (pc + off), s_PRIMAL = Some xv,
          s_EQ_DUAL = Some yv, s_INEQ_DUAL = Some zv\<rparr>"
  using assms
  by (simp add: format_results_def info_of_def timing_of_def empty_results_def
      bind_exn_simps getitem_simps)

text \<open>
  Conversely, a call that returns has read every entry it needs, and its result is one of
  the two dictionaries above.
\<close>

lemma format_results_Inr:
  assumes "format_results results_dict data cached_data = Inr nr"
  shows "\<exists>i flag st t ts tu it.
     info results_dict = Some i \<and> exitFlag i = Some flag \<and> map_of STATUS_MAP flag = Some st \<and>
     timing i = Some t \<and> tsolve t = Some ts \<and> tsetup t = Some tu \<and> iter i = Some it \<and>
     (if st \<in> set SOLUTION_PRESENT
      then \<exists>pc off xv yv zv. pcost i = Some pc \<and> s_OFFSET data = Some off \<and>
             x_vec results_dict = Some xv \<and> y_vec results_dict = Some yv \<and>
             z_vec results_dict = Some zv \<and>
             nr = \<lparr>s_STATUS = Some st, s_SOLVE_TIME = Some ts, s_SETUP_TIME = Some tu,
                   s_NUM_ITERS = Some it, s_VALUE = Some (pc + off), s_PRIMAL = Some xv,
                   s_EQ_DUAL = Some yv, s_INEQ_DUAL = Some zv\<rparr>
      else nr = \<lparr>s_STATUS = Some st, s_SOLVE_TIME = Some ts, s_SETUP_TIME = Some tu,
                 s_NUM_ITERS = Some it, s_VALUE = None, s_PRIMAL = None, s_EQ_DUAL = None,
                 s_INEQ_DUAL = None\<rparr>)"
  using assms
  by (auto simp add: format_results_def info_of_def timing_of_def empty_results_def
      bind_exn_def getitem_def split: option.splits if_splits)

text \<open>Reading the two predicates of the solver contract.\<close>

lemma diagnostics_presentD:
  assumes "diagnostics_present results_dict"
  obtains i t ts tu it where "info results_dict = Some i" "timing i = Some t"
    "tsolve t = Some ts" "tsetup t = Some tu" "iter i = Some it"
  using assms by (auto simp add: diagnostics_present_def split: option.splits)

lemma solution_data_presentD:
  assumes "solution_data_present results_dict data" "info results_dict = Some i"
  obtains pc off xv yv zv where "pcost i = Some pc" "s_OFFSET data = Some off"
    "x_vec results_dict = Some xv" "y_vec results_dict = Some yv" "z_vec results_dict = Some zv"
  using assms by (auto simp add: solution_data_present_def)

text \<open>
  With the diagnostics present, and the solution data present when the exit code is \<open>0\<close>
  or \<open>10\<close>, the call returns, with the status of the table and the three diagnostics.
\<close>

lemma format_results_returns:
  assumes raw: "info results_dict = Some i" "exitFlag i = Some flag"
      "map_of STATUS_MAP flag = Some st" "timing i = Some t"
      "tsolve t = Some ts" "tsetup t = Some tu" "iter i = Some it"
    and sol: "flag \<in> {0, 10} \<longrightarrow> solution_data_present results_dict data"
  shows "\<exists>nr. format_results results_dict data cached_data = Inr nr \<and>
     s_STATUS nr = Some st \<and>
     s_SOLVE_TIME nr = Some ts \<and> s_SETUP_TIME nr = Some tu \<and> s_NUM_ITERS nr = Some it"
proof (cases "flag \<in> {0, 10}")
  case True
  with sol have "solution_data_present results_dict data" by blast
  then obtain pc off xv yv zv where s: "pcost i = Some pc" "s_OFFSET data = Some off"
    "x_vec results_dict = Some xv" "y_vec results_dict = Some yv"
    "z_vec results_dict = Some zv"
    using raw(1) by (rule solution_data_presentD)
  from raw(3) True have "st \<in> set SOLUTION_PRESENT"
    by (simp only: STATUS_MAP_solution_present)
  from format_results_present [OF raw this s, where cached_data = cached_data]
  show ?thesis by simp
next
  case False
  with raw(3) have "st \<notin> set SOLUTION_PRESENT"
    by (simp only: STATUS_MAP_solution_present not_False_eq_True)
  from format_results_absent [OF raw this, where cached_data = cached_data]
  show ?thesis by simp
qed

subsection \<open>The status of an exit code in the table\<close>

text \<open>
  Claim C1. For every raw exit code among the eleven keys of \<^verbatim>\<open>STATUS_MAP\<close>,
  \<^verbatim>\<open>format_results\<close> returns a result, and raises nothing, on a raw result that keeps the
  solver contract; the status of the result is the documented one: \<open>0\<close> gives
  \<open>OPTIMAL\<close>, \<open>1\<close> \<open>INFEASIBLE\<close>, \<open>2\<close> \<open>UNBOUNDED\<close>, \<open>10\<close> \<open>OPTIMAL_INACCURATE\<close>,
  \<open>11\<close> \<open>INFEASIBLE_INACCURATE\<close>, \<open>12\<close> \<open>UNBOUNDED_INACCURATE\<close>, and each of
  \<open>-1\<close>, \<open>-2\<close>, \<open>-3\<close>, \<open>-4\<close>, \<open>-7\<close> gives \<open>SOLVER_ERROR\<close>.
\<close>

theorem format_results_table_status:
  assumes code: "exit_code results_dict = Some flag"
    and table: "flag \<in> {0, 1, 2, 10, 11, 12, -1, -2, -3, -4, -7}"
    and diag: "diagnostics_present results_dict"
    and sol: "flag \<in> {0, 10} \<longrightarrow> solution_data_present results_dict data"
  shows "\<exists>nr. format_results results_dict data cached_data = Inr nr \<and>
     s_STATUS nr =
       Some (if flag = 0 then OPTIMAL else if flag = 1 then INFEASIBLE
             else if flag = 2 then UNBOUNDED else if flag = 10 then OPTIMAL_INACCURATE
             else if flag = 11 then INFEASIBLE_INACCURATE
             else if flag = 12 then UNBOUNDED_INACCURATE else SOLVER_ERROR)"
proof -
  from diag obtain i t ts tu it where i: "info results_dict = Some i" "timing i = Some t"
    "tsolve t = Some ts" "tsetup t = Some tu" "iter i = Some it"
    by (rule diagnostics_presentD)
  from code i(1) have flag: "exitFlag i = Some flag" by (simp add: exit_code_def)
  from table have st: "map_of STATUS_MAP flag = Some
           (if flag = 0 then OPTIMAL else if flag = 1 then INFEASIBLE
             else if flag = 2 then UNBOUNDED else if flag = 10 then OPTIMAL_INACCURATE
             else if flag = 11 then INFEASIBLE_INACCURATE
             else if flag = 12 then UNBOUNDED_INACCURATE else SOLVER_ERROR)"
    by (rule STATUS_MAP_Some)
  from format_results_returns [OF i(1) flag st i(2-) sol, of cached_data]
  show ?thesis by blast
qed

text \<open>
  The theorem at exit code \<open>10\<close>, and at exit code \<open>-2\<close> on a raw result with no vectors
  and no primal cost.
\<close>

theorem format_results_table_status_witness:
  "(\<exists>nr. format_results (example_results 10) example_data () = Inr nr \<and>
         s_STATUS nr = Some OPTIMAL_INACCURATE) \<and>
   (\<exists>nr. format_results (example_results_bare (-2)) example_data () = Inr nr \<and>
         s_STATUS nr = Some SOLVER_ERROR)"
proof -
  have a: "exit_code (example_results 10) = Some 10"
    and b: "diagnostics_present (example_results 10)"
    and c: "solution_data_present (example_results 10) example_data"
    by (simp_all add: exit_code_def diagnostics_present_def solution_data_present_def
        example_results_def example_data_def)
  have a': "exit_code (example_results_bare (-2)) = Some (-2)"
    and b': "diagnostics_present (example_results_bare (-2))"
    by (simp_all add: exit_code_def diagnostics_present_def example_results_bare_def)
  from format_results_table_status [OF a _ b, of example_data "()"] c
    format_results_table_status [OF a' _ b', of example_data "()"]
  show ?thesis by simp
qed

subsection \<open>Solution entries and the status\<close>

text \<open>
  Claim C2. In every result \<^verbatim>\<open>format_results\<close> returns, the optimal value, the primal
  vector, the equality dual and the inequality dual are each present if and only if the
  status is \<open>OPTIMAL\<close> or \<open>OPTIMAL_INACCURATE\<close>. Nothing is assumed of the raw result, so
  outside that subset the four entries are absent also when the raw result has the
  vectors \<^verbatim>\<open>x\<close>, \<^verbatim>\<open>y\<close>, \<^verbatim>\<open>z\<close>.
\<close>

theorem solution_fields_iff_solution_present:
  assumes "format_results results_dict data cached_data = Inr nr"
  shows "\<exists>st. s_STATUS nr = Some st \<and>
     (s_VALUE nr \<noteq> None) = (st \<in> {OPTIMAL, OPTIMAL_INACCURATE}) \<and>
     (s_PRIMAL nr \<noteq> None) = (st \<in> {OPTIMAL, OPTIMAL_INACCURATE}) \<and>
     (s_EQ_DUAL nr \<noteq> None) = (st \<in> {OPTIMAL, OPTIMAL_INACCURATE}) \<and>
     (s_INEQ_DUAL nr \<noteq> None) = (st \<in> {OPTIMAL, OPTIMAL_INACCURATE})"
proof -
  have sp: "set SOLUTION_PRESENT = {OPTIMAL, OPTIMAL_INACCURATE}"
    by (simp add: SOLUTION_PRESENT_def)
  from format_results_Inr [OF assms] show ?thesis
    unfolding sp by (auto split: if_splits)
qed

text \<open>The theorem at exit code \<open>1\<close>, on a raw result that has all three vectors.\<close>

theorem solution_fields_iff_solution_present_witness:
  "\<exists>nr. format_results (example_results 1) example_data () = Inr nr \<and>
     x_vec (example_results 1) = Some [1, 2] \<and> s_STATUS nr = Some INFEASIBLE \<and>
     s_VALUE nr = None \<and> s_PRIMAL nr = None \<and> s_EQ_DUAL nr = None \<and> s_INEQ_DUAL nr = None"
proof -
  have r: "format_results (example_results 1) example_data () =
     Inr \<lparr>s_STATUS = Some INFEASIBLE, s_SOLVE_TIME = Some (1 / 4), s_SETUP_TIME = Some (1 / 8),
          s_NUM_ITERS = Some 7, s_VALUE = None, s_PRIMAL = None, s_EQ_DUAL = None,
          s_INEQ_DUAL = None\<rparr>"
    by (simp add: format_results_def info_of_def timing_of_def empty_results_def
      bind_exn_simps getitem_simps example_results_def STATUS_MAP_def SOLUTION_PRESENT_def)
  from solution_fields_iff_solution_present [OF r] r show ?thesis
    by (simp add: example_results_def)
qed

subsection \<open>The optimal value and the vectors\<close>

text \<open>
  Claim C3. When the status of the exit code is \<open>OPTIMAL\<close> or \<open>OPTIMAL_INACCURATE\<close>, the
  value of the result is the raw primal cost plus the offset of the argument bundle, the
  one addition \<open>pc + off\<close> of the number type and nothing more, and the vectors \<^verbatim>\<open>x\<close>,
  \<^verbatim>\<open>y\<close>, \<^verbatim>\<open>z\<close> are the primal, equality-dual and inequality-dual entries unchanged.
\<close>

theorem format_results_value_and_vectors:
  assumes code: "exit_code results_dict = Some flag"
    and st: "map_of STATUS_MAP flag = Some st" "st \<in> {OPTIMAL, OPTIMAL_INACCURATE}"
    and diag: "diagnostics_present results_dict"
    and raw: "info results_dict = Some i" "pcost i = Some pc" "s_OFFSET data = Some off"
      "x_vec results_dict = Some xv" "y_vec results_dict = Some yv"
      "z_vec results_dict = Some zv"
  shows "\<exists>nr. format_results results_dict data cached_data = Inr nr \<and>
     s_VALUE nr = Some (pc + off) \<and>
     s_PRIMAL nr = Some xv \<and> s_EQ_DUAL nr = Some yv \<and> s_INEQ_DUAL nr = Some zv"
proof -
  from diag raw(1) obtain t ts tu it where d: "timing i = Some t"
    "tsolve t = Some ts" "tsetup t = Some tu" "iter i = Some it"
    by (auto elim: diagnostics_presentD)
  from code raw(1) have flag: "exitFlag i = Some flag" by (simp add: exit_code_def)
  from st(2) have "st \<in> set SOLUTION_PRESENT" by (simp add: SOLUTION_PRESENT_def)
  from format_results_present [OF raw(1) flag st(1) d this raw(2-), where cached_data = cached_data]
  show ?thesis by simp
qed

text \<open>The theorem at exit code \<open>0\<close>: primal cost \<open>5\<close> and offset \<open>2.5\<close> give \<open>7.5\<close>.\<close>

theorem format_results_value_and_vectors_witness:
  "\<exists>nr. format_results (example_results 0) example_data () = Inr nr \<and>
     s_VALUE nr = Some (15 / 2) \<and>
     s_PRIMAL nr = Some [1, 2] \<and> s_EQ_DUAL nr = Some [3] \<and> s_INEQ_DUAL nr = Some [4, 5, 6]"
proof -
  have "exit_code (example_results 0) = Some 0"
    and "map_of STATUS_MAP 0 = Some OPTIMAL"
    and "OPTIMAL \<in> {OPTIMAL, OPTIMAL_INACCURATE}"
    and "diagnostics_present (example_results 0)"
    and "info (example_results 0) =
      Some \<lparr>exitFlag = Some 0, pcost = Some 5, iter = Some 7,
            timing = Some \<lparr>tsolve = Some (1 / 4), tsetup = Some (1 / 8)\<rparr>\<rparr>"
    and "pcost \<lparr>exitFlag = Some 0, pcost = Some (5::real), iter = Some 7,
            timing = Some \<lparr>tsolve = Some (1 / 4), tsetup = Some (1 / 8)\<rparr>\<rparr> = Some 5"
    and "s_OFFSET example_data = Some (5 / 2)"
    and "x_vec (example_results 0) = Some [1, 2]"
    and "y_vec (example_results 0) = Some [3]"
    and "z_vec (example_results 0) = Some [4, 5, 6]"
    by (simp_all add: exit_code_def diagnostics_present_def example_results_def
        example_data_def STATUS_MAP_def)
  from format_results_value_and_vectors [OF this, of "()"]
  show ?thesis by simp
qed

subsection \<open>An exit code outside the table\<close>

text \<open>
  Claim C4, as the specification states it: for an exit code that is not a key of the
  table, \<^verbatim>\<open>format_results\<close> fails with \<^verbatim>\<open>UnknownExitCode\<close>. At exit code \<open>3\<close> the
  subscript \<^verbatim>\<open>self.STATUS_MAP[3]\<close> raises \<^verbatim>\<open>KeyError(3)\<close>, which is another exception.
\<close>

theorem format_results_exit_code_not_UnknownExitCode:
  "exit_code (example_results 3) = Some 3 \<and>
   3 \<notin> {0, 1, 2, 10, 11, 12, -1, -2, -3, -4, -7 :: int} \<and>
   format_results (example_results 3) example_data () = Inl (KeyError (KInt 3)) \<and>
   format_results (example_results 3) example_data () \<noteq> Inl UnknownExitCode"
  by (simp add: format_results_def info_of_def bind_exn_simps getitem_simps
      example_results_def STATUS_MAP_def exit_code_def)

text \<open>
  Claim C4, amended. For an exit code that is not a key of the table,
  \<^verbatim>\<open>format_results\<close> fails with the \<^verbatim>\<open>KeyError\<close> of the dictionary subscript, carrying
  the exit code; it returns no result, so no status is substituted.
\<close>

theorem format_results_unknown_exit_code:
  assumes "exit_code results_dict = Some flag"
    and "flag \<notin> {0, 1, 2, 10, 11, 12, -1, -2, -3, -4, -7}"
  shows "format_results results_dict data cached_data = Inl (KeyError (KInt flag))"
proof -
  from assms(1) obtain i where i: "info results_dict = Some i" "exitFlag i = Some flag"
    by (auto simp add: exit_code_def split: option.splits)
  from assms(2) have "map_of STATUS_MAP flag = None" by (rule STATUS_MAP_None)
  with i show ?thesis by (rule format_results_unknown)
qed

theorem format_results_unknown_exit_code_witness:
  "format_results (example_results 5) example_data () = Inl (KeyError (KInt 5))"
proof -
  have "exit_code (example_results 5) = Some 5"
    and "5 \<notin> {0, 1, 2, 10, 11, 12, -1, -2, -3, -4, -7 :: int}"
    by (simp_all add: exit_code_def example_results_def)
  then show ?thesis by (rule format_results_unknown_exit_code)
qed

subsection \<open>The diagnostics\<close>

text \<open>
  Claim C8. For every exit code in the table, the result of \<^verbatim>\<open>format_results\<close> carries
  the solve time \<^verbatim>\<open>timing.tsolve\<close>, the setup time \<^verbatim>\<open>timing.tsetup\<close> and the iteration
  count \<^verbatim>\<open>iter\<close> of the raw result, whichever status the exit code maps to. The solution
  data is required only for the exit codes \<open>0\<close> and \<open>10\<close>.
\<close>

theorem format_results_diagnostics:
  assumes code: "exit_code results_dict = Some flag"
    and table: "flag \<in> {0, 1, 2, 10, 11, 12, -1, -2, -3, -4, -7}"
    and raw: "info results_dict = Some i" "timing i = Some t"
      "tsolve t = Some ts" "tsetup t = Some tu" "iter i = Some it"
    and sol: "flag \<in> {0, 10} \<longrightarrow> solution_data_present results_dict data"
  shows "\<exists>nr. format_results results_dict data cached_data = Inr nr \<and>
     s_SOLVE_TIME nr = Some ts \<and> s_SETUP_TIME nr = Some tu \<and> s_NUM_ITERS nr = Some it"
proof -
  from code raw(1) have flag: "exitFlag i = Some flag" by (simp add: exit_code_def)
  from table obtain st where st: "map_of STATUS_MAP flag = Some st"
    using STATUS_MAP_Some by blast
  from format_results_returns [OF raw(1) flag st raw(2-) sol, of cached_data]
  show ?thesis by blast
qed

text \<open>
  The theorem at exit code \<open>-2\<close>, status \<open>SOLVER_ERROR\<close>, on a raw result with no vectors
  and no primal cost.
\<close>

theorem format_results_diagnostics_witness:
  "\<exists>nr. format_results (example_results_bare (-2)) example_data () = Inr nr \<and>
     s_STATUS nr = Some SOLVER_ERROR \<and>
     s_SOLVE_TIME nr = Some (1 / 4) \<and> s_SETUP_TIME nr = Some (1 / 8) \<and> s_NUM_ITERS nr = Some 7"
proof -
  let ?t = "\<lparr>tsolve = Some (1 / 4 :: real), tsetup = Some (1 / 8)\<rparr>"
  let ?i = "\<lparr>exitFlag = Some (-2), pcost = None, iter = Some 7, timing = Some ?t\<rparr>"
  have a: "exit_code (example_results_bare (-2)) = Some (-2)"
    and b: "-2 \<in> {0, 1, 2, 10, 11, 12, -1, -2, -3, -4, -7 :: int}"
    and c: "info (example_results_bare (-2)) = Some ?i" "timing ?i = Some ?t"
      "tsolve ?t = Some (1 / 4)" "tsetup ?t = Some (1 / 8)" "iter ?i = Some 7"
    and d: "(-2 :: int) \<in> {0, 10} \<longrightarrow>
      solution_data_present (example_results_bare (-2)) example_data"
    by (simp_all add: exit_code_def example_results_bare_def)
  have r: "s_STATUS (projr (format_results (example_results_bare (-2)) example_data ())) =
      Some SOLVER_ERROR"
    by (simp add: format_results_def info_of_def timing_of_def empty_results_def
      bind_exn_simps getitem_simps example_results_bare_def STATUS_MAP_def
      SOLUTION_PRESENT_def)
  from format_results_diagnostics [OF a b c d, of "()"] r
  show ?thesis by auto
qed

section \<open>Properties of \<^verbatim>\<open>get_problem_data\<close> and \<^verbatim>\<open>solve\<close>\<close>

lemma bind_st_simps:
  "bind_st (lift (Inl e)) f st = (Inl e, st)"
  "bind_st (lift (Inr r)) f st = f r st"
  by (simp_all add: bind_st_def lift_def)

lemma bind_args_three:
  "bind_args f [p1, p2, p3] [a1, a2, a3] = Inr (map_of [(p1, a1), (p2, a2), (p3, a3)])"
  by (simp add: bind_args_def)

lemma bind_args_mismatch:
  "length args \<noteq> length params \<Longrightarrow> bind_args f params args = Inl (TypeError f)"
  by (simp add: bind_args_def)

text \<open>The module binds no name \<^verbatim>\<open>cached_data\<close>.\<close>

lemma module_globals_cached_data: "module_globals ''cached_data'' = None"
  by (simp add: module_globals_def)

text \<open>
  Called with three objects, the method binds \<^verbatim>\<open>self\<close>, \<^verbatim>\<open>objective\<close> and
  \<^verbatim>\<open>constraints\<close>; its first statement then reads \<^verbatim>\<open>cached_data\<close>, which is not a
  local name, so the call ends in a \<^verbatim>\<open>NameError\<close> unless the global names have it.
  Called with any other number of objects it ends in a \<^verbatim>\<open>TypeError\<close>. Neither touches
  the heap.
\<close>

lemma get_problem_data_unbound:
  assumes "globals ''cached_data'' = None"
  shows "get_problem_data base globals [self, objective, constraints] st =
     (Inl (NameError ''cached_data''), st)"
  using assms
  by (simp add: get_problem_data_def bind_args_three load_name_def bind_st_simps)

lemma get_problem_data_arity:
  assumes "length args \<noteq> 3"
  shows "get_problem_data base globals args st = (Inl (TypeError ''get_problem_data''), st)"
  using assms
  by (simp add: get_problem_data_def bind_args_mismatch bind_st_simps)

lemma get_problem_data_fails:
  assumes "globals ''cached_data'' = None"
  shows "\<exists>e. get_problem_data base globals args st = (Inl e, st)"
proof (cases "length args = 3")
  case True
  then obtain a1 a2 a3 where "args = [a1, a2, a3]"
    by (auto simp add: length_Suc_conv numeral_3_eq_3)
  with assms show ?thesis by (simp add: get_problem_data_unbound)
next
  case False
  then show ?thesis by (simp add: get_problem_data_arity)
qed

lemma get_problem_data_NameError:
  "get_problem_data base module_globals [self, objective, constraints] st =
     (Inl (NameError ''cached_data''), st)"
  by (rule get_problem_data_unbound) (rule module_globals_cached_data)

lemma get_problem_data_module_fails:
  "\<exists>e. get_problem_data base module_globals args st = (Inl e, st)"
  by (rule get_problem_data_fails) (rule module_globals_cached_data)

text \<open>
  \<^verbatim>\<open>solve\<close> passes four objects to the method of three parameters, so it ends at that
  call, or before it at the import.
\<close>

lemma solve_fails:
  "solve base globals ecos EXP_DIM self objective constraints cached_data warm_start verbose
     solver_opts st =
   (Inl (if ecos = None then ImportError ''ecos'' else TypeError ''get_problem_data''), st)"
  by (cases ecos)
    (simp_all add: solve_def import_module_def bind_st_simps get_problem_data_arity
      bind_st_def [of "get_problem_data base globals [self, objective, constraints, cached_data]"])

text \<open>
  The rest of the body of \<^verbatim>\<open>get_problem_data\<close>, seen where the global names do bind
  \<^verbatim>\<open>cached_data\<close>: the bundle holds a reference to a copy of the cone-dimension
  dictionary at the new address \<open>1\<close>, and the dictionary at address \<open>0\<close> is as before.
\<close>

lemma get_problem_data_bound_example:
  "get_problem_data example_base (module_globals(''cached_data'' \<mapsto> example_cached_data))
     [example_self, example_objective, example_constraints] example_state =
   (Inr \<lparr>s_C = Some [1, 1], s_OFFSET = Some (5 / 2), s_A = Some [], s_B = Some [],
         s_G = Some [1, 0, 0, 1], s_H = Some [1, 1], s_F = Some [], s_DIMS = Some 1,
         s_BOOL_IDX = Some [0], s_INT_IDX = Some [1]\<rparr>,
    \<lparr>heap = [0 \<mapsto> [''l'' \<mapsto> [2], ''ep'' \<mapsto> [0]], 1 \<mapsto> [''l'' \<mapsto> [2], ''ep'' \<mapsto> [0]]],
     next_addr = 2\<rparr>)"
  by (simp add: get_problem_data_def bind_args_three load_name_def bind_st_simps
      example_base_def example_matrix_data_def example_state_def dict_copy_def
      empty_data_def getitem_simps bind_st_def [of "dict_copy _"] lift_def numeral_2_eq_2)

subsection \<open>Both methods always fail\<close>

text \<open>
  Claim C5. With the names the source binds, every call of \<^verbatim>\<open>get_problem_data\<close> fails:
  the call with an objective and constraints ends in \<^verbatim>\<open>NameError\<close> for \<^verbatim>\<open>cached_data\<close>,
  which is neither a parameter nor a name of the module, and a call with any list of
  arguments ends in an exception. \<^verbatim>\<open>solve\<close>, which passes \<^verbatim>\<open>cached_data\<close> as one
  argument too many, ends in an exception as well, whatever the solver function is, and
  leaves the state as it was: it never reaches the call of the solver and returns no
  result.
\<close>

theorem get_problem_data_and_solve_always_fail:
  "get_problem_data base module_globals [self, objective, constraints] st =
     (Inl (NameError ''cached_data''), st) \<and>
   (\<exists>e. get_problem_data base module_globals args st = (Inl e, st)) \<and>
   solve base module_globals ecos EXP_DIM self objective constraints cached_data warm_start
       verbose solver_opts st =
     (Inl (if ecos = None then ImportError ''ecos'' else TypeError ''get_problem_data''), st)"
  by (simp add: get_problem_data_NameError get_problem_data_module_fails solve_fails)

subsection \<open>The cone-dimension dictionary\<close>

text \<open>
  Claim C6 says that building the argument bundle copies the cone-dimension dictionary
  and that the copy receives the key \<^verbatim>\<open>'e'\<close>. On the example, \<^verbatim>\<open>solve\<close> ends in the
  \<^verbatim>\<open>TypeError\<close> of its call of \<^verbatim>\<open>get_problem_data\<close>: the heap still holds the one
  dictionary at address \<open>0\<close>, with its two keys; there is no copy and no key \<^verbatim>\<open>'e'\<close>.
\<close>

theorem solve_example_sets_no_alias:
  "solve example_base module_globals example_ecos ''ep'' example_self example_objective
       example_constraints example_cached_data False False example_solver_opts example_state =
     (Inl (TypeError ''get_problem_data''), example_state) \<and>
   dom (heap example_state) = {0} \<and>
   heap example_state 0 = Some [''l'' \<mapsto> [2], ''ep'' \<mapsto> [0]]"
  by (simp add: solve_fails example_ecos_def example_state_def)

subsection \<open>Constraint classes\<close>

lemma never_raises_bind_st:
  assumes "fst (m st) \<noteq> Inl e"
    and "\<And>r st'. m st = (Inr r, st') \<Longrightarrow> fst (f r st') \<noteq> Inl e"
  shows "fst (bind_st m f st) \<noteq> Inl e"
  using assms by (auto simp add: bind_st_def split: prod.splits sum.splits)

lemma never_raises_bind_st_pair:
  assumes "fst (m st) \<noteq> Inl e"
    and "\<And>a b st'. m st = (Inr (a, b), st') \<Longrightarrow> fst (f a b st') \<noteq> Inl e"
  shows "fst (bind_st m (\<lambda>(a, b). f a b) st) \<noteq> Inl e"
  using assms by (auto simp add: bind_st_def split: prod.splits sum.splits)

lemma lift_bind_args: "fst (lift (bind_args f ps as) st) \<noteq> Inl UnsupportedConstraint"
  by (simp add: lift_def bind_args_def)

lemma lift_load_name: "fst (lift (load_name g l n) st) \<noteq> Inl UnsupportedConstraint"
  by (simp add: lift_def load_name_def split: option.splits)

lemma lift_getitem: "fst (lift (getitem k v) st) \<noteq> Inl UnsupportedConstraint"
  by (simp add: lift_def getitem_def split: option.splits)

lemma lift_Inr: "fst (lift (Inr v) st) \<noteq> Inl e"
  by (simp add: lift_def)

lemma dict_copy_never: "fst (dict_copy a st) \<noteq> Inl UnsupportedConstraint"
  by (simp add: dict_copy_def split: option.splits)

lemma base_never_raises_sym:
  "base_never_raises e base \<Longrightarrow> fst (get_sym_data base a b c st) \<noteq> Inl e"
  by (simp add: base_never_raises_def never_raises_def)

lemma base_never_raises_matrix:
  "base_never_raises e base \<Longrightarrow> fst (get_matrix_data base a b c st) \<noteq> Inl e"
  by (simp add: base_never_raises_def never_raises_def)

lemma base_never_raises_idx:
  "base_never_raises e base \<Longrightarrow> fst (noncvx_id_to_idx base d offsets sizes st) \<noteq> Inl e"
  by (simp add: base_never_raises_def never_raises_def)

lemma base_never_raises_methods:
  assumes "base_never_raises e base" "get_matrix_data base a b c st = (Inr m, st')"
  shows "fst (get_objective m s1) \<noteq> Inl e" "fst (get_eq_constr m s2) \<noteq> Inl e"
    "fst (get_ineq_constr m s3) \<noteq> Inl e" "fst (get_nonlin_constr m s4) \<noteq> Inl e"
  using assms unfolding base_never_raises_def never_raises_def by metis+

text \<open>
  Claim C7, as the specification states it: \<^verbatim>\<open>get_problem_data\<close> fails with
  \<^verbatim>\<open>UnsupportedConstraint\<close> when the problem has a constraint of a class outside the
  accepted ones. On a problem with a semidefinite constraint it does not.
\<close>

theorem get_problem_data_sdp_not_UnsupportedConstraint:
  "''SDP'' \<notin> set accepted_constr_types \<and>
   fst (get_problem_data example_base module_globals
          [PyInstance ''ECOS'', LinOp [1, 1],
           ConstrList [(''Ineq'', [1, 0, 0, 1]), (''SDP'', [1, 0, 0, 1])]] example_state)
     \<noteq> Inl UnsupportedConstraint"
  by (simp add: get_problem_data_NameError accepted_constr_types_def)

text \<open>
  Of its own, \<^verbatim>\<open>get_problem_data\<close> raises no \<^verbatim>\<open>UnsupportedConstraint\<close>: only a method
  inherited from \<^verbatim>\<open>Solver\<close> could.
\<close>

lemma get_problem_data_raises_no_UnsupportedConstraint:
  assumes "base_never_raises UnsupportedConstraint base"
  shows "fst (get_problem_data base globals args st) \<noteq> Inl UnsupportedConstraint"
  unfolding get_problem_data_def Let_def
  by (intro never_raises_bind_st never_raises_bind_st_pair lift_bind_args lift_load_name
        lift_getitem lift_Inr dict_copy_never base_never_raises_sym [OF assms]
        base_never_raises_matrix [OF assms] base_never_raises_idx [OF assms])
    (erule base_never_raises_methods [OF assms])+

text \<open>
  The binding of a result that does not fail, as an equation of computations, and the
  only use the body makes of \<^verbatim>\<open>constraints\<close>: it hands the object to \<^verbatim>\<open>get_sym_data\<close>
  and to \<^verbatim>\<open>get_matrix_data\<close>.
\<close>

lemma bind_st_lift:
  "bind_st (lift (Inl e)) f = lift (Inl e)"
  "bind_st (lift (Inr r)) f = f r"
  by (rule ext, simp add: bind_st_def lift_def)+

lemma get_problem_data_constraints_cong:
  assumes sym: "\<And>cached_data. get_sym_data base objective constraints cached_data =
                  get_sym_data base objective constraints' cached_data"
    and mat: "\<And>cached_data. get_matrix_data base objective constraints cached_data =
                  get_matrix_data base objective constraints' cached_data"
  shows "get_problem_data base globals [self, objective, constraints] st =
         get_problem_data base globals [self, objective, constraints'] st"
  by (simp add: get_problem_data_def bind_args_three load_name_def bind_st_lift sym mat
      split: option.splits)

text \<open>
  Claim C7, amended. \<^verbatim>\<open>get_problem_data\<close> makes no check of the constraint classes: its
  outcome, result and state, depends on the constraints only through the two inherited
  methods it passes them to, so two lists of constraints on which \<^verbatim>\<open>get_sym_data\<close> and
  \<^verbatim>\<open>get_matrix_data\<close> agree give the same outcome, whatever the classes in them. And it
  never fails with \<^verbatim>\<open>UnsupportedConstraint\<close> of its own: whatever the arguments, the
  global names and the state, it does not raise that exception unless a method inherited
  from \<^verbatim>\<open>Solver\<close> does.
\<close>

theorem get_problem_data_no_constraint_check:
  assumes sym: "\<forall>cached_data. get_sym_data base objective constraints cached_data =
                  get_sym_data base objective constraints' cached_data"
    and mat: "\<forall>cached_data. get_matrix_data base objective constraints cached_data =
                  get_matrix_data base objective constraints' cached_data"
    and nr: "base_never_raises UnsupportedConstraint base"
  shows "get_problem_data base globals [self, objective, constraints] st =
           get_problem_data base globals [self, objective, constraints'] st \<and>
         (\<forall>args st'. fst (get_problem_data base globals args st') \<noteq> Inl UnsupportedConstraint)"
proof (intro conjI allI)
  from sym mat
  show "get_problem_data base globals [self, objective, constraints] st =
           get_problem_data base globals [self, objective, constraints'] st"
    by (intro get_problem_data_constraints_cong) simp_all
next
  fix args st'
  from nr show "fst (get_problem_data base globals args st') \<noteq> Inl UnsupportedConstraint"
    by (rule get_problem_data_raises_no_UnsupportedConstraint)
qed

text \<open>
  The theorem on the example base class, whose methods do not look at the constraints.
  Where the global names bind \<^verbatim>\<open>cached_data\<close>, the problem with the semidefinite
  constraint gives the same argument bundle as the problem without it; with the names of
  the module as the source binds them, the two calls end alike as well.
\<close>

theorem get_problem_data_no_constraint_check_witness:
  "example_sdp_constraints =
     ConstrList [(''Ineq'', [1, 0, 0, 1]), (''SDP'', [1, 0, 0, 1])] \<and>
   ''SDP'' \<notin> set accepted_constr_types \<and>
   get_problem_data example_base (module_globals(''cached_data'' \<mapsto> example_cached_data))
       [example_self, example_objective, example_sdp_constraints] example_state =
     (Inr \<lparr>s_C = Some [1, 1], s_OFFSET = Some (5 / 2), s_A = Some [], s_B = Some [],
           s_G = Some [1, 0, 0, 1], s_H = Some [1, 1], s_F = Some [], s_DIMS = Some 1,
           s_BOOL_IDX = Some [0], s_INT_IDX = Some [1]\<rparr>,
      \<lparr>heap = [0 \<mapsto> [''l'' \<mapsto> [2], ''ep'' \<mapsto> [0]], 1 \<mapsto> [''l'' \<mapsto> [2], ''ep'' \<mapsto> [0]]],
       next_addr = 2\<rparr>) \<and>
   get_problem_data example_base module_globals
       [example_self, example_objective, example_sdp_constraints] example_state =
     get_problem_data example_base module_globals
       [example_self, example_objective, example_constraints] example_state"
proof -
  have sym: "\<forall>cached_data.
      get_sym_data example_base example_objective example_constraints cached_data =
      get_sym_data example_base example_objective example_sdp_constraints cached_data"
    and mat: "\<forall>cached_data.
      get_matrix_data example_base example_objective example_constraints cached_data =
      get_matrix_data example_base example_objective example_sdp_constraints cached_data"
    by (simp_all add: example_base_def)
  have nr: "base_never_raises UnsupportedConstraint example_base"
    by (simp add: base_never_raises_def never_raises_def example_base_def
        example_matrix_data_def lift_def)
  note t = get_problem_data_no_constraint_check [OF sym mat nr, of _ example_self example_state]
  from t [of "module_globals(''cached_data'' \<mapsto> example_cached_data)"] t [of module_globals]
    get_problem_data_bound_example
  show ?thesis
    by (simp add: example_sdp_constraints_def accepted_constr_types_def)
qed

subsection \<open>Warm start\<close>

text \<open>
  Claim C9. The result of \<^verbatim>\<open>solve\<close> does not depend on \<^verbatim>\<open>warm_start\<close>: with every other
  argument, the solver and the state the same, the call with \<open>True\<close> and the call with
  \<open>False\<close> give the same result and the same state.
\<close>

theorem solve_ignores_warm_start:
  "solve base globals ecos EXP_DIM self objective constraints cached_data True verbose
     solver_opts st =
   solve base globals ecos EXP_DIM self objective constraints cached_data False verbose
     solver_opts st"
  by (simp add: solve_def)

subsection \<open>The index lists of the discrete variables\<close>

text \<open>
  Claim C10 is about the lists of boolean and integer indices that
  \<^verbatim>\<open>get_problem_data\<close> returns. On the example the call returns no bundle, so no lists:
  it ends in the \<^verbatim>\<open>NameError\<close> for \<^verbatim>\<open>cached_data\<close> before \<^verbatim>\<open>_noncvx_id_to_idx\<close> is
  called.
\<close>

theorem get_problem_data_example_returns_no_index_sets:
  "get_problem_data example_base module_globals
       [example_self, example_objective, example_constraints] example_state =
     (Inl (NameError ''cached_data''), example_state)"
  by (rule get_problem_data_NameError)

end
